theory Spec2Isabelle
  imports Complex_Main
begin

section \<open>Space Invaders: the state-transition core of spaceinvaders.ts\<close>

text \<open>
  A shallow embedding of the pure core of \<^verbatim>\<open>spaceinvaders.ts\<close>: the vector class, the
  pseudo random number generator, the body generators, \<^verbatim>\<open>renewState\<close>, the physics
  handlers, \<^verbatim>\<open>handleCollisions\<close>, \<^verbatim>\<open>tick\<close>, \<^verbatim>\<open>reduceState\<close> and \<^verbatim>\<open>alienShoot\<close>.

  A JavaScript \<^verbatim>\<open>number\<close> is modelled as a \<^typ>\<open>real\<close> with exact arithmetic, so the
  rounding of IEEE doubles is not part of the model. The object counter and the numeric
  identifiers of bodies only ever hold natural numbers and are modelled as \<^typ>\<open>nat\<close>.
  The one place where the source can throw (reading \<^verbatim>\<open>attacker.pos\<close> of an
  \<^verbatim>\<open>undefined\<close> attacker) is an explicit error value.
\<close>

subsection \<open>Useful functions and classes\<close>

text \<open>Class \<^verbatim>\<open>Vec\<close>; the fields \<^verbatim>\<open>x\<close> and \<^verbatim>\<open>y\<close> are called \<open>vx\<close> and \<open>vy\<close>.\<close>

datatype Vec = Vec (vx: real) (vy: real)

definition Zero :: Vec where
  "Zero = Vec 0 0"

definition add :: "Vec \<Rightarrow> Vec \<Rightarrow> Vec" where
  "add v b = Vec (vx v + vx b) (vy v + vy b)"

definition scale :: "Vec \<Rightarrow> real \<Rightarrow> Vec" where
  "scale v s = Vec (vx v * s) (vy v * s)"

definition sub :: "Vec \<Rightarrow> Vec \<Rightarrow> Vec" where
  "sub v b = add v (scale b (- 1))"

definition rotate :: "Vec \<Rightarrow> real \<Rightarrow> Vec" where
  "rotate v deg =
     (let rad = pi * deg / 180; c = cos rad; s = sin rad
      in Vec (vx v * c - vy v * s) (vx v * s + vy v * c))"

text \<open>\<^verbatim>\<open>flatMap\<close>, \<^verbatim>\<open>not\<close>, \<^verbatim>\<open>elem\<close> and \<^verbatim>\<open>except\<close>; \<^verbatim>\<open>Array.prototype.findIndex\<close>
  returns \<open>-1\<close> when no element satisfies the predicate.\<close>

definition flatMap :: "'a list \<Rightarrow> ('a \<Rightarrow> 'b list) \<Rightarrow> 'b list" where
  "flatMap a f = concat (map f a)"

definition not :: "('a \<Rightarrow> bool) \<Rightarrow> 'a \<Rightarrow> bool" where
  "not f x = (\<not> f x)"

fun findIndex :: "('a \<Rightarrow> bool) \<Rightarrow> 'a list \<Rightarrow> int" where
  "findIndex p [] = - 1"
| "findIndex p (x # xs) =
     (if p x then 0 else (let i = findIndex p xs in if i < 0 then - 1 else i + 1))"

definition elem :: "('a \<Rightarrow> 'a \<Rightarrow> bool) \<Rightarrow> 'a list \<Rightarrow> 'a \<Rightarrow> bool" where
  "elem eq a e = (findIndex (eq e) a \<ge> 0)"

definition except :: "('a \<Rightarrow> 'a \<Rightarrow> bool) \<Rightarrow> 'a list \<Rightarrow> 'a list \<Rightarrow> 'a list" where
  "except eq a b = filter (not (elem eq b)) a"

subsection \<open>Pseudo random number generator\<close>

text \<open>The remainder operator \<^verbatim>\<open>%\<close> of JavaScript truncates the quotient towards zero,
  so the result has the sign of the dividend.

  \<^verbatim>\<open>RNG.int()\<close> is modelled with exact arithmetic. The code computes \<^verbatim>\<open>a * state + c\<close> in
  doubles: where that value is below \<open>2^53\<close> the two differ by no more than the spacing of
  the doubles there, and above \<open>2^53\<close> (states above about \<open>8.16e6\<close>) the code's value is
  rounded to a multiple of a power of two and differs from the exact one. The properties
  of the generator stated below are inequalities at states where \<^verbatim>\<open>a * state + c\<close> is below
  \<open>2^53\<close>, with a margin far above that spacing.\<close>

definition js_rem :: "real \<Rightarrow> real \<Rightarrow> real" where
  "js_rem n d = n - d * of_int (if 0 \<le> n / d then \<lfloor>n / d\<rfloor> else \<lceil>n / d\<rceil>)"

record RNG =
  state :: real

definition rng_m :: real where "rng_m = 2147483648"
definition rng_a :: real where "rng_a = 1103515245"
definition rng_c :: real where "rng_c = 12345"

definition int_rng :: "RNG \<Rightarrow> real" where
  "int_rng r = js_rem (rng_a * state r + rng_c) rng_m"

definition float_rng :: "RNG \<Rightarrow> real" where
  "float_rng r = int_rng r / (rng_m - 1)"

definition next_rng :: "RNG \<Rightarrow> RNG" where
  "next_rng r = \<lparr>state = int_rng r\<rparr>"

subsection \<open>Game constants, types and classes\<close>

definition CANVAS_SIZE :: real where "CANVAS_SIZE = 600"
definition START_TIME :: real where "START_TIME = 0"
definition PLAYER_VEL :: real where "PLAYER_VEL = 5"
definition ALIEN_VEL :: real where "ALIEN_VEL = 5"
definition SHIELD_DISTANCE_APART :: real where "SHIELD_DISTANCE_APART = 125"
definition ALIEN_SPACING :: real where "ALIEN_SPACING = 10"
definition ALIEN_SCORING :: real where "ALIEN_SCORING = 10"
definition ALIEN_INITIAL_SPEED :: real where "ALIEN_INITIAL_SPEED = 3 / 10"
definition ALIEN_INITIAL_ACC :: real where "ALIEN_INITIAL_ACC = 1 / 10000"
definition X_BOUNDS_left :: real where "X_BOUNDS_left = 50"
definition X_BOUNDS_right :: real where "X_BOUNDS_right = 500"
definition MOVE_DIST_y :: real where "MOVE_DIST_y = 35"
definition ROWS :: nat where "ROWS = 3"
definition COLS :: nat where "COLS = 8"
definition UFO_POINTS :: real where "UFO_POINTS = 50"
definition ALIEN_ACC_SCALE :: real where "ALIEN_ACC_SCALE = 2"

record Dims =
  width :: real
  height :: real

definition SHIP_DIMS :: Dims where "SHIP_DIMS = \<lparr>width = 50, height = 20\<rparr>"
definition BULLET_DIMS :: Dims where "BULLET_DIMS = \<lparr>width = 6, height = 24\<rparr>"
definition BULLET_HOLE_DIMS :: Dims where "BULLET_HOLE_DIMS = \<lparr>width = 25, height = 25\<rparr>"
definition SHIELD_DIMS :: Dims where "SHIELD_DIMS = \<lparr>width = 80, height = 40\<rparr>"
definition ALIEN_DIMS :: Dims where "ALIEN_DIMS = \<lparr>width = 35, height = 35\<rparr>"
definition UFO_DIMS :: Dims where "UFO_DIMS = \<lparr>width = 100, height = 60\<rparr>"

definition SHIELD_INITIAL_POS :: Vec where "SHIELD_INITIAL_POS = Vec 10 425"
definition ALIEN_INITIAL_POS :: Vec where "ALIEN_INITIAL_POS = Vec 50 50"
definition UFO_INITIAL_POS :: Vec where "UFO_INITIAL_POS = Vec (- 50) 50"
definition UFO_INITIAL_VEL :: Vec where "UFO_INITIAL_VEL = Vec 2 0"

text \<open>The view types \<^verbatim>\<open>'ship'\<close>, \<^verbatim>\<open>'bulletPlayer'\<close>, ... are the constructors \<open>Ship\<close>,
  \<open>BulletPlayer\<close>, ...; \<open>viewTypeName\<close> gives the string.\<close>

datatype ViewType = Ship | BulletPlayer | Hole | Shield | Alien | BulletAlien | Ufo

fun viewTypeName :: "ViewType \<Rightarrow> string" where
  "viewTypeName Ship = ''ship''"
| "viewTypeName BulletPlayer = ''bulletPlayer''"
| "viewTypeName Hole = ''hole''"
| "viewTypeName Shield = ''shield''"
| "viewTypeName Alien = ''alien''"
| "viewTypeName BulletAlien = ''bulletAlien''"
| "viewTypeName Ufo = ''ufo''"

text \<open>The decimal rendering of a natural number, as string concatenation produces it.\<close>

function numberString :: "nat \<Rightarrow> string" where
  "numberString n =
     (if n < 10 then [''0123456789'' ! n]
      else numberString (n div 10) @ [''0123456789'' ! (n mod 10)])"
  by pat_completeness auto
termination
  by (relation "measure (\<lambda>n. n)") auto

declare numberString.simps [simp del]

text \<open>Type \<^verbatim>\<open>Body\<close>; the field \<^verbatim>\<open>id\<close> is called \<open>ident\<close>.\<close>

record Body =
  ident :: string
  viewType :: ViewType
  createTime :: real
  dims :: Dims
  pos :: Vec
  vel :: Vec
  acc :: Vec

record MovementPos =
  start :: Vec
  current :: Body

record AliensInfo =
  bodies :: "Body list"
  accMagnitude :: real
  movementPos :: MovementPos

text \<open>The array \<^verbatim>\<open>exit\<close> is declared to hold bodies, but \<^verbatim>\<open>renewState\<close> also puts an
  \<^verbatim>\<open>AliensInfo\<close> object into it, so its elements are one or the other.\<close>

datatype ExitItem = ExitBody Body | ExitAliens AliensInfo

record State =
  time :: real
  score :: real
  hiScore :: real
  gameOver :: bool
  ship :: Body
  bullets :: "Body list"
  exit :: "ExitItem list"
  shields :: "Body list"
  holes :: "Body list"
  aliens :: AliensInfo
  ufo :: "Body list"
  objCount :: nat
  rng :: RNG

datatype Event = Tick real | Move real | Shoot | AlienShoot | Restart | UfoSpawn

datatype error = TypeError

subsection \<open>Generators for in game objects\<close>

definition createBody ::
  "ViewType \<Rightarrow> nat option \<Rightarrow> real \<Rightarrow> Dims \<Rightarrow> Vec \<Rightarrow> Vec \<Rightarrow> Vec \<Rightarrow> Body" where
  "createBody v oId t d p ve ac =
     \<lparr>ident = viewTypeName v @ (case oId of Some n \<Rightarrow> numberString n | None \<Rightarrow> ''''),
      viewType = v, createTime = t, dims = d, pos = p, vel = ve, acc = ac\<rparr>"

definition createAlien :: "nat option \<Rightarrow> Vec \<Rightarrow> real \<Rightarrow> Body" where
  "createAlien oId p accMag =
     createBody Alien oId START_TIME ALIEN_DIMS p (Vec ALIEN_INITIAL_SPEED 0) (Vec accMag 0)"

definition createShip :: Body where
  "createShip =
     createBody Ship None START_TIME SHIP_DIMS
       (Vec (CANVAS_SIZE / 2 - width SHIP_DIMS / 2) (CANVAS_SIZE - 50 - height SHIP_DIMS / 2))
       Zero Zero"

definition createShields :: "Body list" where
  "createShields =
     map (\<lambda>i. createBody Shield (Some i) START_TIME SHIELD_DIMS
                (add SHIELD_INITIAL_POS (Vec (real i * SHIELD_DISTANCE_APART) 0)) Zero Zero)
       [0 ..< 5]"

definition createAliens :: "real \<Rightarrow> AliensInfo" where
  "createAliens alienAcc =
     (let TOTAL = ROWS * COLS;
          aliens = map (\<lambda>i. createAlien (Some i)
                     (add ALIEN_INITIAL_POS (Vec
                        (real (i mod COLS) * (width ALIEN_DIMS + ALIEN_SPACING))
                        (real (i div COLS) * (height ALIEN_DIMS + ALIEN_SPACING))))
                     alienAcc) [0 ..< TOTAL]
      in \<lparr>bodies = aliens,
          accMagnitude = alienAcc,
          movementPos = \<lparr>start = Vec (vx ALIEN_INITIAL_POS) 0,
                         current = createAlien None (Vec (vx ALIEN_INITIAL_POS) 0)
                                     ALIEN_INITIAL_ACC\<rparr>\<rparr>)"

subsection \<open>Game state objects and methods\<close>

text \<open>The stored high score \<^verbatim>\<open>PREV_HI_SCORE\<close> and the seed \<^verbatim>\<open>RNG_SEEDS.SHOOTER\<close> are read
  from the environment when the game starts; they are parameters here.\<close>

definition initialState :: "real \<Rightarrow> real \<Rightarrow> State" where
  "initialState prevHiScore seed =
     \<lparr>time = START_TIME, score = 0, hiScore = prevHiScore, gameOver = False,
      ship = createShip, bullets = [], exit = [], shields = createShields, holes = [],
      aliens = createAliens ALIEN_INITIAL_ACC, ufo = [], objCount = ROWS * COLS,
      rng = \<lparr>state = seed\<rparr>\<rparr>"

definition renewState :: "State \<Rightarrow> bool \<Rightarrow> State" where
  "renewState s resetState =
     (let alienAcc = (if resetState then ALIEN_INITIAL_ACC
                      else ALIEN_ACC_SCALE * accMagnitude (aliens s))
      in s\<lparr>ship := createShip,
           time := START_TIME,
           score := (if resetState then 0 else score s),
           gameOver := False,
           bullets := [],
           exit := map ExitBody (bullets s) @ map ExitBody (holes s) @ map ExitBody (ufo s)
                     @ [ExitAliens (aliens s)],
           holes := [],
           aliens := createAliens alienAcc,
           ufo := [],
           objCount := objCount s + ROWS * COLS,
           rng := next_rng (rng s)\<rparr>)"

subsection \<open>Physics handlers for Body objects\<close>

definition sameId :: "Body \<Rightarrow> Body \<Rightarrow> bool" where
  "sameId a b = (ident a = ident b)"

definition isViewType :: "ViewType \<Rightarrow> Body \<Rightarrow> bool" where
  "isViewType v o' = (v = viewType o')"

definition inBounds :: "Body \<Rightarrow> bool" where
  "inBounds o' =
     (let s = CANVAS_SIZE; topLeft = pos o';
          bound = (\<lambda>v. v > 0 \<and> v < s)
      in bound (vx topLeft) \<and> bound (vx topLeft + width (dims o')) \<and>
         bound (vy topLeft) \<and> bound (vy topLeft + height (dims o')))"

definition moveBody :: "Body \<Rightarrow> Body" where
  "moveBody o' = o'\<lparr>pos := add (pos o') (vel o'), vel := add (vel o') (acc o')\<rparr>"

definition stopBody :: "Body \<Rightarrow> Body" where
  "stopBody o' = o'\<lparr>pos := sub (pos o') (vel o'), vel := Zero\<rparr>"

definition shiftAlienDown :: "Body \<Rightarrow> Body" where
  "shiftAlienDown a =
     a\<lparr>pos := add (pos a) (Vec 0 MOVE_DIST_y),
       vel := rotate (vel a) 180,
       acc := rotate (acc a) 180\<rparr>"

definition moveAliens :: "AliensInfo \<Rightarrow> AliensInfo" where
  "moveAliens a =
     (let aliensTopRightPosX =
            X_BOUNDS_right - (real COLS * width ALIEN_DIMS + (real COLS - 1) * ALIEN_SPACING);
          cur = current (movementPos a);
          leftBound = (vx (pos cur) \<le> vx (start (movementPos a)) - aliensTopRightPosX);
          rightBound = (vx (pos cur) \<ge> vx (start (movementPos a)) + aliensTopRightPosX);
          outOfBounds = (leftBound \<or> rightBound);
          shiftLeft = (if rightBound
                       then (vx (pos cur) + aliensTopRightPosX * 2) - X_BOUNDS_right else 0);
          shiftRight = (if leftBound then vx (pos cur) - X_BOUNDS_left else 0);
          shiftAlienX = (\<lambda>b. b\<lparr>pos := add (pos b) (Vec (shiftLeft + shiftRight) 0)\<rparr>)
      in a\<lparr>bodies := (if outOfBounds then map shiftAlienDown (map shiftAlienX (bodies a))
                      else map moveBody (bodies a)),
           movementPos := (if outOfBounds
                           then \<lparr>start = pos cur, current = shiftAlienDown (shiftAlienX cur)\<rparr>
                           else (movementPos a)\<lparr>current := moveBody cur\<rparr>)\<rparr>)"

definition bodiesCollided :: "Body \<times> Body \<Rightarrow> bool" where
  "bodiesCollided p =
     (case p of (a, b) \<Rightarrow>
        vx (pos a) + width (dims a) \<ge> vx (pos b) \<and>
        vx (pos a) \<le> vx (pos b) + width (dims b) \<and>
        vy (pos a) + height (dims a) \<ge> vy (pos b) \<and>
        vy (pos a) \<le> vy (pos b) + height (dims b))"

definition cut :: "Body list \<Rightarrow> Body list \<Rightarrow> Body list" where
  "cut = except sameId"

definition collidedBodies ::
  "(Body \<times> Body \<Rightarrow> bool) \<Rightarrow> Body list \<Rightarrow> Body list \<Rightarrow> (Body \<times> Body) list" where
  "collidedBodies f aArr bArr = filter f (flatMap aArr (\<lambda>a. map (\<lambda>b. (a, b)) bArr))"

definition checkCollision :: "Body list \<Rightarrow> Body list \<Rightarrow> (Body \<times> Body) list" where
  "checkCollision = collidedBodies bodiesCollided"

definition handleCollisions :: "State \<Rightarrow> State" where
  "handleCollisions s =
     (let shipCollided = (length (filter (\<lambda>b. bodiesCollided (ship s, b)) (bullets s)) > 0);
          collidedBulletsFromShields = map fst (checkCollision (bullets s) (shields s));
          collidedBulletsFromHoles = map fst (checkCollision collidedBulletsFromShields (holes s));
          expiredBulletsFromShields = cut collidedBulletsFromShields collidedBulletsFromHoles;
          playerBullets = filter (isViewType BulletPlayer) (bullets s);
          collidedPlayerBulletsAndAliens = checkCollision playerBullets (bodies (aliens s));
          expiredBulletsFromAliens = map fst collidedPlayerBulletsAndAliens;
          expiredAliens = map snd collidedPlayerBulletsAndAliens;
          remainingAliens = filter (not (elem sameId expiredAliens)) (bodies (aliens s));
          expiredBulletsWithBullets =
            map fst (filter (not (\<lambda>(a, b). sameId a b)) (checkCollision (bullets s) (bullets s)));
          collidedPlayerBulletsAndUfo = checkCollision playerBullets (ufo s);
          expiredBulletsFromUfo = map fst collidedPlayerBulletsAndUfo;
          expiredUfos = map snd collidedPlayerBulletsAndUfo;
          remainingUfos = filter (not (elem sameId expiredUfos)) (ufo s);
          holesBullets =
            map (\<lambda>(b, i).
                   createBody Hole (Some (objCount s + i)) (time s) BULLET_HOLE_DIMS
                     (add (pos b) (Vec
                        (width (dims b) / 2 - width BULLET_HOLE_DIMS / 2)
                        (if sgn (vy (vel b)) > 0
                         then height BULLET_HOLE_DIMS - height BULLET_HOLE_DIMS / 2 else 0)))
                     Zero Zero)
              (zip expiredBulletsFromShields [0 ..< length expiredBulletsFromShields]);
          expiredBullets = expiredBulletsFromShields @ expiredBulletsFromAliens
                             @ expiredBulletsWithBullets @ expiredBulletsFromUfo;
          currentHoleCount = length holesBullets;
          newScore = score s + ALIEN_SCORING * real (length collidedPlayerBulletsAndAliens)
                       + UFO_POINTS * real (length expiredUfos)
      in s\<lparr>score := newScore,
           hiScore := (if newScore > hiScore s then newScore else hiScore s),
           bullets := cut (cut (cut (bullets s) expiredBulletsFromShields)
                             expiredBulletsFromAliens) expiredBulletsWithBullets,
           exit := exit s @ map ExitBody expiredAliens @ map ExitBody expiredBullets
                     @ map ExitBody expiredUfos,
           holes := holes s @ holesBullets,
           aliens := (aliens s)\<lparr>bodies := remainingAliens\<rparr>,
           ufo := remainingUfos,
           objCount := objCount s + currentHoleCount,
           gameOver := (gameOver s \<or> shipCollided)\<rparr>)"

definition tick :: "State \<Rightarrow> real \<Rightarrow> State" where
  "tick s elapsed =
     (let activeBullets = filter inBounds (bullets s);
          expiredBullets = filter (not inBounds) (bullets s);
          alienInvaded = (length (filter (not inBounds) (bodies (aliens s))) > 0);
          exitLeft = (\<lambda>o'. vx (pos o') < CANVAS_SIZE + width (dims o'));
          activeUfos = filter exitLeft (ufo s);
          expiredUfos = except sameId (ufo s) activeUfos
      in handleCollisions
           (s\<lparr>ship := (if inBounds (ship s) then moveBody (ship s) else stopBody (ship s)),
              bullets := map moveBody activeBullets,
              exit := exit s @ map ExitBody expiredBullets @ map ExitBody expiredUfos,
              aliens := moveAliens (aliens s),
              ufo := map moveBody activeUfos,
              time := elapsed,
              gameOver := alienInvaded\<rparr>))"

subsection \<open>Alien functions\<close>

text \<open>An index outside the array reads \<^verbatim>\<open>undefined\<close>, and \<^verbatim>\<open>attacker.pos\<close> then throws a
  \<^verbatim>\<open>TypeError\<close>.\<close>

definition alienShoot :: "State \<Rightarrow> error + State" where
  "alienShoot s =
     (let attackerIndex = \<lfloor>real (length (bodies (aliens s))) * float_rng (rng s)\<rfloor>
      in if 0 \<le> attackerIndex \<and> attackerIndex < int (length (bodies (aliens s)))
         then (let attacker = bodies (aliens s) ! nat attackerIndex
               in Inr (s\<lparr>bullets := bullets s @
                            [createBody BulletAlien (Some (objCount s)) (time s) BULLET_DIMS
                               (add (pos attacker) (Vec
                                  (width (dims attacker) / 2 - width BULLET_DIMS / 2)
                                  (height (dims attacker))))
                               (Vec 0 ALIEN_VEL) Zero],
                         objCount := objCount s + 1,
                         rng := next_rng (rng s)\<rparr>))
         else Inl TypeError)"

subsection \<open>State transducer\<close>

definition reduceState :: "State \<Rightarrow> Event \<Rightarrow> error + State" where
  "reduceState s e =
     (if length (bodies (aliens s)) = 0 then Inr (renewState s False)
      else if e = Restart then Inr (renewState s True)
      else if gameOver s then Inr s
      else (case e of
              Move direction \<Rightarrow> Inr (s\<lparr>ship := (ship s)\<lparr>vel := Vec direction 0\<rparr>\<rparr>)
            | Shoot \<Rightarrow>
                (if find (\<lambda>b. viewType b = BulletPlayer) (bullets s) = None
                 then Inr (s\<lparr>bullets := bullets s @
                              [createBody BulletPlayer (Some (objCount s)) (time s) BULLET_DIMS
                                 (add (pos (ship s)) (Vec
                                    (width (dims (ship s)) / 2 - width BULLET_DIMS / 2)
                                    (- 30)))
                                 (rotate (Vec 0 PLAYER_VEL) 180) Zero],
                            objCount := objCount s + 1\<rparr>)
                 else Inr s)
            | AlienShoot \<Rightarrow> alienShoot s
            | UfoSpawn \<Rightarrow>
                Inr (s\<lparr>ufo := ufo s @
                         [createBody Ufo (Some (objCount s)) (time s) UFO_DIMS
                            UFO_INITIAL_POS UFO_INITIAL_VEL Zero],
                       objCount := objCount s + 1\<rparr>)
            | Tick elapsed \<Rightarrow> Inr (tick s elapsed)
            | Restart \<Rightarrow> Inr (renewState s True)))"

subsection \<open>Main game stream\<close>

text \<open>The stream of events is folded with \<^verbatim>\<open>scan(reduceState, initialState)\<close>; an exception
  thrown by the reducer ends the stream with that error.\<close>

fun scanEvents :: "State \<Rightarrow> Event list \<Rightarrow> error + State" where
  "scanEvents s [] = Inr s"
| "scanEvents s (e # es) =
     (case reduceState s e of Inl err \<Rightarrow> Inl err | Inr s' \<Rightarrow> scanEvents s' es)"

subsection \<open>Notions used in the statements\<close>

text \<open>Two closed intervals meet when the larger of the lower ends is at most the smaller
  of the upper ends; two rectangles overlap, edges included, when their intervals meet on
  both axes.\<close>

definition closedIntervalsMeet :: "real \<Rightarrow> real \<Rightarrow> real \<Rightarrow> real \<Rightarrow> bool" where
  "closedIntervalsMeet lo1 hi1 lo2 hi2 = (max lo1 lo2 \<le> min hi1 hi2)"

definition rectanglesOverlap :: "Body \<Rightarrow> Body \<Rightarrow> bool" where
  "rectanglesOverlap a b =
     (closedIntervalsMeet (vx (pos a)) (vx (pos a) + width (dims a))
                          (vx (pos b)) (vx (pos b) + width (dims b)) \<and>
      closedIntervalsMeet (vy (pos a)) (vy (pos a) + height (dims a))
                          (vy (pos b)) (vy (pos b) + height (dims b)))"

text \<open>An alien bullet whose lower edge lies on the upper edge of the first shield.\<close>

definition touchingBullet :: Body where
  "touchingBullet = createBody BulletAlien (Some 30) 0 BULLET_DIMS (Vec 40 401) (Vec 0 5) Zero"

text \<open>The initial state after a \<^verbatim>\<open>Shoot\<close>: one player bullet is in flight.\<close>

definition shotFired :: State where
  "shotFired = (initialState 0 (1 / 2))
     \<lparr>bullets := [createBody BulletPlayer (Some 24) 0 BULLET_DIMS (Vec 297 510) (Vec 0 (- 5)) Zero],
      objCount := 25\<rparr>"

text \<open>A state whose formation has been shot down, with a score of 240.\<close>

definition levelCleared :: State where
  "levelCleared = (initialState 0 (1 / 2))
     \<lparr>score := 240, hiScore := 240,
      aliens := (aliens (initialState 0 (1 / 2)))\<lparr>bodies := []\<rparr>\<rparr>"

text \<open>Formation rigidity: every alien has the velocity and the acceleration of the
  formation anchor \<^verbatim>\<open>movementPos.current\<close>.\<close>

definition rigid :: "AliensInfo \<Rightarrow> bool" where
  "rigid a = list_all (\<lambda>b. vel b = vel (current (movementPos a)) \<and>
                          acc b = acc (current (movementPos a))) (bodies a)"

text \<open>The intermediate values of \<^verbatim>\<open>handleCollisions\<close> and the state that \<^verbatim>\<open>tick\<close> hands to
  it, as functions of the state.\<close>

definition shieldHits :: "State \<Rightarrow> Body list" where
  "shieldHits s = map fst (checkCollision (bullets s) (shields s))"

definition expiredFromShields :: "State \<Rightarrow> Body list" where
  "expiredFromShields s = cut (shieldHits s) (map fst (checkCollision (shieldHits s) (holes s)))"

definition alienHits :: "State \<Rightarrow> (Body \<times> Body) list" where
  "alienHits s = checkCollision (filter (isViewType BulletPlayer) (bullets s)) (bodies (aliens s))"

definition ufoHits :: "State \<Rightarrow> (Body \<times> Body) list" where
  "ufoHits s = checkCollision (filter (isViewType BulletPlayer) (bullets s)) (ufo s)"

definition bulletClashes :: "State \<Rightarrow> Body list" where
  "bulletClashes s =
     map fst (filter (not (\<lambda>(a, b). sameId a b)) (checkCollision (bullets s) (bullets s)))"

definition interim :: "State \<Rightarrow> real \<Rightarrow> State" where
  "interim s elapsed =
     s\<lparr>ship := (if inBounds (ship s) then moveBody (ship s) else stopBody (ship s)),
       bullets := map moveBody (filter inBounds (bullets s)),
       exit := exit s @ map ExitBody (filter (not inBounds) (bullets s))
                 @ map ExitBody (except sameId (ufo s)
                     (filter (\<lambda>o'. vx (pos o') < CANVAS_SIZE + width (dims o')) (ufo s))),
       aliens := moveAliens (aliens s),
       ufo := map moveBody (filter (\<lambda>o'. vx (pos o') < CANVAS_SIZE + width (dims o')) (ufo s)),
       time := elapsed,
       gameOver := length (filter (not inBounds) (bodies (aliens s))) > 0\<rparr>"

text \<open>The initial formation with a player bullet between the fifth and the sixth column
  and a UFO above it: after one more step the bullet overlaps the UFO and no alien.\<close>

definition ufoUnderFire :: State where
  "ufoUnderFire = (initialState 0 (1 / 2))
     \<lparr>bullets := [createBody BulletPlayer (Some 24) 0 BULLET_DIMS (Vec 267 110) (Vec 0 (- 5)) Zero],
      ufo := [createBody Ufo (Some 25) 0 UFO_DIMS (Vec 200 50) UFO_INITIAL_VEL Zero],
      objCount := 26\<rparr>"

definition firedBullet :: Body where
  "firedBullet = createBody BulletPlayer (Some 24) 0 BULLET_DIMS (Vec 267 105) (Vec 0 (- 5)) Zero"

definition hitUfo :: Body where
  "hitUfo = createBody Ufo (Some 25) 0 UFO_DIMS (Vec 202 50) UFO_INITIAL_VEL Zero"

text \<open>A seed in \<open>[0, 1)\<close>, as \<^verbatim>\<open>Math.random()\<close> returns them, after which the second draw of
  the generator is above 1.\<close>

definition crashSeed :: real where
  "crashSeed = 237162342251 / 100000000000000000000"

text \<open>The clock emits \<^verbatim>\<open>Tick(0)\<close>, \<^verbatim>\<open>Tick(1)\<close>, ...; \<open>ticksFrom k n\<close> are the \<open>n\<close> ticks from
  \<open>k\<close> on. In \<open>killEvents\<close> the player moves right for 15 ticks, shoots, and the bullet
  flies for 67 ticks.\<close>

fun ticksFrom :: "nat \<Rightarrow> nat \<Rightarrow> Event list" where
  "ticksFrom k 0 = []"
| "ticksFrom k (Suc n) = Tick (real k) # ticksFrom (Suc k) n"

definition killEvents :: "Event list" where
  "killEvents = Move 3 # ticksFrom 0 15 @ Shoot # ticksFrom 15 67"

text \<open>The states passed through by \<open>killEvents\<close>, in closed form. After \<open>k\<close> ticks the
  formation has moved right by \<open>displacement k\<close> and the ship by \<open>3 * k\<close>; after \<open>j\<close> ticks
  of flight the bullet is \<open>5 * j\<close> above the point where it was fired.\<close>

definition displacement :: "nat \<Rightarrow> real" where
  "displacement k = real k * (3 / 10) + real (k * (k - 1)) / 20000"

definition drift :: "nat \<Rightarrow> Body \<Rightarrow> Body" where
  "drift k b =
     b\<lparr>pos := Vec (vx (pos b) + displacement k) (vy (pos b)),
       vel := Vec (3 / 10 + real k / 10000) 0\<rparr>"

definition driftedAliens :: "nat \<Rightarrow> AliensInfo" where
  "driftedAliens k =
     \<lparr>bodies = map (drift k) (bodies (createAliens ALIEN_INITIAL_ACC)),
      accMagnitude = ALIEN_INITIAL_ACC,
      movementPos = \<lparr>start = Vec 50 0,
                     current = drift k (createAlien None (Vec 50 0) ALIEN_INITIAL_ACC)\<rparr>\<rparr>"

definition cruise :: "nat \<Rightarrow> State" where
  "cruise k = (initialState 0 (1 / 2))
     \<lparr>time := real (k - 1),
      ship := createShip\<lparr>pos := Vec (275 + 3 * real k) 540, vel := Vec 3 0\<rparr>,
      aliens := driftedAliens k\<rparr>"

definition theBullet :: "nat \<Rightarrow> Body" where
  "theBullet j = createBody BulletPlayer (Some 24) 14 BULLET_DIMS
                   (Vec 342 (510 - 5 * real j)) (Vec 0 (- 5)) Zero"

definition flight :: "nat \<Rightarrow> nat \<Rightarrow> State" where
  "flight k j = (cruise k)\<lparr>bullets := [theBullet j], objCount := 25\<rparr>"

definition afterFirstKill :: State where
  "afterFirstKill = handleCollisions (flight 82 67)"

section \<open>Properties\<close>

subsection \<open>Auxiliary facts\<close>

subsubsection \<open>The formation and the interval test\<close>

lemma length_createAliens: "length (bodies (createAliens a)) = ROWS * COLS"
  by (simp add: createAliens_def Let_def)

lemma length_initial_aliens: "length (bodies (aliens (initialState h seed))) = 24"
  by (simp add: initialState_def length_createAliens ROWS_def COLS_def)

lemma closedIntervalsMeet_common_point:
  "closedIntervalsMeet lo1 hi1 lo2 hi2 = (\<exists>x. lo1 \<le> x \<and> x \<le> hi1 \<and> lo2 \<le> x \<and> x \<le> hi2)"
proof
  assume "closedIntervalsMeet lo1 hi1 lo2 hi2"
  then have "lo1 \<le> max lo1 lo2 \<and> max lo1 lo2 \<le> hi1 \<and> lo2 \<le> max lo1 lo2 \<and> max lo1 lo2 \<le> hi2"
    by (simp add: closedIntervalsMeet_def)
  then show "\<exists>x. lo1 \<le> x \<and> x \<le> hi1 \<and> lo2 \<le> x \<and> x \<le> hi2" by blast
next
  assume "\<exists>x. lo1 \<le> x \<and> x \<le> hi1 \<and> lo2 \<le> x \<and> x \<le> hi2"
  then show "closedIntervalsMeet lo1 hi1 lo2 hi2"
    by (auto simp: closedIntervalsMeet_def)
qed

subsubsection \<open>The generator\<close>

lemma js_rem_nonneg:
  assumes "0 \<le> n" and "0 < d"
  shows "0 \<le> js_rem n d \<and> js_rem n d < d"
proof -
  have q: "0 \<le> n / d" using assms by simp
  have "d * of_int \<lfloor>n / d\<rfloor> \<le> d * (n / d)"
    by (rule mult_left_mono) (use assms(2) in simp_all)
  then have lo: "d * of_int \<lfloor>n / d\<rfloor> \<le> n"
    using assms(2) by simp
  have "n / d < of_int \<lfloor>n / d\<rfloor> + 1" by linarith
  then have "d * (n / d) < d * (of_int \<lfloor>n / d\<rfloor> + 1)"
    using assms(2) by (rule mult_strict_left_mono)
  then have hi: "n < d * of_int \<lfloor>n / d\<rfloor> + d"
    using assms(2) by (simp add: distrib_left)
  from q lo hi show ?thesis by (simp add: js_rem_def)
qed

lemma int_rng_bounds:
  assumes "0 \<le> state r"
  shows "0 \<le> int_rng r \<and> int_rng r < rng_m"
proof -
  have "0 \<le> rng_a * state r + rng_c" using assms by (simp add: rng_a_def rng_c_def)
  moreover have "0 < rng_m" by (simp add: rng_m_def)
  ultimately show ?thesis unfolding int_rng_def by (rule js_rem_nonneg)
qed

subsubsection \<open>Fields that a transition keeps or sets\<close>

lemma shields_renewState: "shields (renewState s r) = shields s"
  by (simp add: renewState_def Let_def)

lemma shields_handleCollisions: "shields (handleCollisions s) = shields s"
  by (simp add: handleCollisions_def Let_def)

lemma shields_tick: "shields (tick s t) = shields s"
  by (simp add: tick_def Let_def shields_handleCollisions)

lemma shields_alienShoot: "alienShoot s = Inr s' \<Longrightarrow> shields s' = shields s"
  by (auto simp: alienShoot_def Let_def split: if_splits)

lemma exit_renewState:
  "exit (renewState s r) =
     map ExitBody (bullets s) @ map ExitBody (holes s) @ map ExitBody (ufo s)
       @ [ExitAliens (aliens s)]"
  by (simp add: renewState_def Let_def)

subsubsection \<open>Evaluation\<close>

lemmas constant_defs = CANVAS_SIZE_def START_TIME_def PLAYER_VEL_def ALIEN_VEL_def
  SHIELD_DISTANCE_APART_def ALIEN_SPACING_def ALIEN_SCORING_def ALIEN_INITIAL_SPEED_def
  ALIEN_INITIAL_ACC_def X_BOUNDS_left_def X_BOUNDS_right_def MOVE_DIST_y_def ROWS_def COLS_def
  UFO_POINTS_def ALIEN_ACC_SCALE_def SHIP_DIMS_def BULLET_DIMS_def BULLET_HOLE_DIMS_def
  SHIELD_DIMS_def ALIEN_DIMS_def UFO_DIMS_def SHIELD_INITIAL_POS_def ALIEN_INITIAL_POS_def
  UFO_INITIAL_POS_def UFO_INITIAL_VEL_def

lemma rotate_180: "rotate v 180 = Vec (- vx v) (- vy v)"
  by (simp add: rotate_def)

lemma elem_list_ex: "elem eq a e = list_ex (eq e) a"
proof -
  have "(0 \<le> findIndex p xs) = list_ex p xs" for p :: "'a \<Rightarrow> bool" and xs
    by (induction xs) (auto simp: Let_def)
  then show ?thesis by (simp add: elem_def)
qed

lemmas geometry = Zero_def add_def scale_def sub_def inBounds_def moveBody_def stopBody_def
  bodiesCollided_def sameId_def isViewType_def not_def elem_list_ex except_def cut_def
  createBody_def numberString.simps

lemma checkCollision_Nil [simp]: "checkCollision [] bs = []"
  by (simp add: checkCollision_def collidedBodies_def flatMap_def)

lemma checkCollision_Cons:
  "checkCollision (a # as) bs =
     filter (\<lambda>p. bodiesCollided p) (map (\<lambda>b. (a, b)) bs) @ checkCollision as bs"
  by (simp add: checkCollision_def collidedBodies_def flatMap_def)

lemma checkCollision_Nil2 [simp]: "checkCollision as [] = []"
  by (induction as) (simp_all add: checkCollision_Cons)

subsubsection \<open>The fields of the state after collision handling\<close>

lemma tick_interim: "tick s elapsed = handleCollisions (interim s elapsed)"
  by (simp add: tick_def interim_def Let_def)

lemma score_handleCollisions:
  "score (handleCollisions s) =
     score s + ALIEN_SCORING * real (length (alienHits s)) + UFO_POINTS * real (length (ufoHits s))"
  by (simp add: handleCollisions_def Let_def alienHits_def ufoHits_def)

lemma hiScore_handleCollisions:
  "hiScore (handleCollisions s) = max (hiScore s) (score (handleCollisions s))"
  by (simp add: handleCollisions_def Let_def max_def)

lemma bullets_handleCollisions:
  "bullets (handleCollisions s) =
     cut (cut (cut (bullets s) (expiredFromShields s)) (map fst (alienHits s))) (bulletClashes s)"
  by (simp add: handleCollisions_def Let_def expiredFromShields_def shieldHits_def alienHits_def
      bulletClashes_def)

lemma ufo_handleCollisions:
  "ufo (handleCollisions s) = filter (not (elem sameId (map snd (ufoHits s)))) (ufo s)"
  by (simp add: handleCollisions_def Let_def ufoHits_def)

lemma exit_handleCollisions:
  "exit (handleCollisions s) =
     exit s @ map ExitBody (map snd (alienHits s))
       @ map ExitBody (expiredFromShields s @ map fst (alienHits s) @ bulletClashes s
                         @ map fst (ufoHits s))
       @ map ExitBody (map snd (ufoHits s))"
  by (simp add: handleCollisions_def Let_def expiredFromShields_def shieldHits_def alienHits_def
      bulletClashes_def ufoHits_def)


subsubsection \<open>Rigidity\<close>

lemma map_viewType_createAliens:
  "map viewType (bodies (createAliens a)) = replicate 24 Alien"
  by (simp add: createAliens_def Let_def createAlien_def createBody_def comp_def
      map_replicate_const ROWS_def COLS_def)

lemma map_dims_createAliens:
  "map dims (bodies (createAliens a)) = replicate 24 \<lparr>width = 35, height = 35\<rparr>"
  by (simp add: createAliens_def Let_def createAlien_def createBody_def comp_def
      map_replicate_const ROWS_def COLS_def ALIEN_DIMS_def)

lemma map_pos_createAliens:
  "map pos (bodies (createAliens a)) =
     map (\<lambda>i. Vec (50 + 45 * real (i mod 8)) (50 + 45 * real (i div 8))) [0 ..< 24]"
  by (simp add: createAliens_def Let_def createAlien_def createBody_def comp_def add_def
      ROWS_def COLS_def ALIEN_DIMS_def ALIEN_SPACING_def ALIEN_INITIAL_POS_def)

lemma map_ident_createAliens:
  "map ident (bodies (createAliens a)) = map (\<lambda>i. ''alien'' @ numberString i) [0 ..< 24]"
  by (simp add: createAliens_def Let_def createAlien_def createBody_def comp_def
      ROWS_def COLS_def)

lemma map_createTime_createAliens:
  "map createTime (bodies (createAliens a)) = replicate 24 0"
  by (simp add: createAliens_def Let_def createAlien_def createBody_def comp_def
      map_replicate_const ROWS_def COLS_def START_TIME_def)

lemma aliens_level_advance:
  "length (bodies (aliens s)) = 0 \<Longrightarrow>
   reduceState s e = Inr (renewState s False) \<and>
   aliens (renewState s False) = createAliens (ALIEN_ACC_SCALE * accMagnitude (aliens s)) \<and>
   score (renewState s False) = score s"
  by (simp add: reduceState_def renewState_def Let_def)

lemma map_acc_createAliens: "map acc (bodies (createAliens a)) = replicate 24 (Vec a 0)"
  by (simp add: createAliens_def Let_def createAlien_def createBody_def comp_def
      map_replicate_const ROWS_def COLS_def)

lemma map_vel_createAliens:
  "map vel (bodies (createAliens a)) = replicate 24 (Vec ALIEN_INITIAL_SPEED 0)"
  by (simp add: createAliens_def Let_def createAlien_def createBody_def comp_def
      map_replicate_const ROWS_def COLS_def)

lemma anchor_createAliens:
  "vel (current (movementPos (createAliens a))) = Vec ALIEN_INITIAL_SPEED 0 \<and>
   acc (current (movementPos (createAliens a))) = Vec ALIEN_INITIAL_ACC 0"
  by (simp add: createAliens_def Let_def createAlien_def createBody_def)

lemma list_all_two_consts:
  "list_all (\<lambda>b. f b = c \<and> g b = d) xs =
     (map f xs = replicate (length xs) c \<and> map g xs = replicate (length xs) d)"
  by (induction xs) auto

lemma rigid_iff:
  "rigid a = (map vel (bodies a) = replicate (length (bodies a)) (vel (current (movementPos a))) \<and>
              map acc (bodies a) = replicate (length (bodies a)) (acc (current (movementPos a))))"
  unfolding rigid_def by (rule list_all_two_consts)

lemma rigid_createAliens: "rigid (createAliens a) = (a = ALIEN_INITIAL_ACC)"
  by (simp add: rigid_iff map_acc_createAliens map_vel_createAliens anchor_createAliens
      length_createAliens ROWS_def COLS_def)

text \<open>Rigidity holds in the initial state, after a restart, and is kept by every reduction
  of a state with a non-empty formation.\<close>

lemma rigid_initialState: "rigid (aliens (initialState h seed))"
  by (simp add: initialState_def rigid_createAliens)

lemma rigid_moveAliens: "rigid a \<Longrightarrow> rigid (moveAliens a)"
  by (simp add: rigid_def moveAliens_def Let_def list_all_iff moveBody_def shiftAlienDown_def)

lemma rigid_handleCollisions: "rigid (aliens s) \<Longrightarrow> rigid (aliens (handleCollisions s))"
  by (simp add: rigid_def handleCollisions_def Let_def list_all_iff)

lemma rigid_tick: "rigid (aliens s) \<Longrightarrow> rigid (aliens (tick s t))"
  by (simp add: tick_def Let_def rigid_handleCollisions rigid_moveAliens)

lemma rigid_restart: "rigid (aliens (renewState s True))"
  by (simp add: renewState_def Let_def rigid_createAliens)

lemma aliens_alienShoot: "alienShoot s = Inr s' \<Longrightarrow> aliens s' = aliens s"
  by (auto simp: alienShoot_def Let_def split: if_splits)

lemma rigid_reduceState:
  assumes "reduceState s e = Inr s'" and "rigid (aliens s)" and "bodies (aliens s) \<noteq> []"
  shows "rigid (aliens s')"
proof (cases "e = Restart \<or> gameOver s")
  case True
  with assms show ?thesis
    by (auto simp: reduceState_def rigid_restart split: if_splits)
next
  case False
  with assms show ?thesis
    by (cases e) (auto simp: reduceState_def rigid_tick dest: aliens_alienShoot split: if_splits)
qed

subsubsection \<open>The tick in which the bullet meets the UFO\<close>

lemma aliens_interim_initial:
  "bodies (aliens (interim ufoUnderFire 1)) = map moveBody (bodies (createAliens ALIEN_INITIAL_ACC))"
  by (simp add: interim_def ufoUnderFire_def initialState_def moveAliens_def Let_def)
   (simp add: createAliens_def createAlien_def createBody_def constant_defs Let_def)

lemma bullets_interim: "bullets (interim ufoUnderFire 1) = [firedBullet]"
  by (simp add: interim_def ufoUnderFire_def firedBullet_def geometry constant_defs split del: if_split)

lemma ufo_interim: "ufo (interim ufoUnderFire 1) = [hitUfo]"
  by (simp add: interim_def ufoUnderFire_def hitUfo_def geometry constant_defs split del: if_split)

lemma alienHits_interim: "alienHits (interim ufoUnderFire 1) = []"
  unfolding alienHits_def aliens_interim_initial bullets_interim
  by (simp add: checkCollision_Cons firedBullet_def createAliens_def createAlien_def geometry constant_defs
       upt_rec Let_def split del: if_split)

lemma ufoHits_interim: "ufoHits (interim ufoUnderFire 1) = [(firedBullet, hitUfo)]"
  unfolding ufoHits_def ufo_interim bullets_interim
  by (simp add: checkCollision_Cons firedBullet_def hitUfo_def geometry constant_defs)

lemma shields_interim: "shields (interim ufoUnderFire 1) = createShields"
  by (simp add: interim_def ufoUnderFire_def initialState_def)

lemma expiredFromShields_interim: "expiredFromShields (interim ufoUnderFire 1) = []"
  unfolding expiredFromShields_def shieldHits_def shields_interim bullets_interim
  by (simp add: checkCollision_Cons firedBullet_def createShields_def geometry constant_defs
      upt_rec split del: if_split)

lemma bulletClashes_interim: "bulletClashes (interim ufoUnderFire 1) = []"
  unfolding bulletClashes_def bullets_interim
  by (simp add: checkCollision_Cons firedBullet_def geometry constant_defs)

lemma exit_interim: "exit (interim ufoUnderFire 1) = []"
  by (simp add: interim_def ufoUnderFire_def initialState_def geometry constant_defs
      split del: if_split)

lemma score_interim: "score (interim ufoUnderFire 1) = 0"
  by (simp add: interim_def ufoUnderFire_def initialState_def)

subsubsection \<open>The selected index\<close>

lemma alienShoot_out_of_range:
  assumes "real (length (bodies (aliens s))) \<le> real (length (bodies (aliens s))) * float_rng (rng s)"
  shows "alienShoot s = Inl TypeError"
proof -
  have "int (length (bodies (aliens s))) \<le> \<lfloor>real (length (bodies (aliens s))) * float_rng (rng s)\<rfloor>"
    using assms by (simp add: le_floor_iff)
  then show ?thesis by (simp add: alienShoot_def Let_def)
qed

lemma alienShoot_in_range:
  assumes "0 \<le> real (length (bodies (aliens s))) * float_rng (rng s)"
    and "real (length (bodies (aliens s))) * float_rng (rng s) < real (length (bodies (aliens s)))"
  shows "\<exists>s'. alienShoot s = Inr s' \<and> aliens s' = aliens s \<and> rng s' = next_rng (rng s) \<and>
           gameOver s' = gameOver s"
proof -
  have "0 \<le> \<lfloor>real (length (bodies (aliens s))) * float_rng (rng s)\<rfloor>"
    using assms(1) by simp
  moreover have "\<lfloor>real (length (bodies (aliens s))) * float_rng (rng s)\<rfloor> < int (length (bodies (aliens s)))"
    using assms(2) by (simp add: floor_less_iff)
  ultimately show ?thesis by (simp add: alienShoot_def Let_def)
qed

lemma float_crashSeed:
  "0 \<le> float_rng \<lparr>state = crashSeed\<rparr> \<and> 24 * float_rng \<lparr>state = crashSeed\<rparr> < 24"
  by (simp add: float_rng_def int_rng_def js_rem_def rng_a_def rng_c_def rng_m_def crashSeed_def)

lemma float_after_crashSeed: "1 \<le> float_rng (next_rng \<lparr>state = crashSeed\<rparr>)"
  by (simp add: next_rng_def float_rng_def int_rng_def js_rem_def rng_a_def rng_c_def rng_m_def
      crashSeed_def)

subsubsection \<open>The route to the first kill\<close>

lemma displacement_Suc: "displacement (Suc k) = displacement k + 3 / 10 + real k / 10000"
proof -
  have key: "real (Suc k * (Suc k - 1)) = real (k * (k - 1)) + 2 * real k"
    by (cases k) (simp_all add: algebra_simps)
  show ?thesis
    unfolding displacement_def key by (simp add: field_simps)
qed

lemma displacement_0: "displacement 0 = 0"
  by (simp add: displacement_def)

lemma displacement_bound:
  assumes "k \<le> 82"
  shows "0 \<le> displacement k" and "displacement k \<le> 25"
proof -
  show "0 \<le> displacement k" by (simp add: displacement_def)
  have "k * (k - 1) \<le> 82 * 81"
    using assms by (intro mult_le_mono) simp_all
  then have "k * (k - 1) \<le> 6642" by simp
  then have "real (k * (k - 1)) \<le> real 6642" by (simp only: of_nat_le_iff)
  then have "real (k * (k - 1)) \<le> 6642" by simp
  moreover have "real k \<le> 82" using assms by simp
  ultimately show "displacement k \<le> 25" unfolding displacement_def by simp
qed

lemma drift_step:
  assumes "acc b = Vec (1 / 10000) 0"
  shows "moveBody (drift k b) = drift (Suc k) b"
proof -
  have v: "3 / 10 + real k / 10000 + 1 / 10000 = 3 / 10 + real (Suc k) / 10000"
    by (simp add: add_divide_distrib)
  have p: "vx (pos b) + displacement k + (3 / 10 + real k / 10000) = vx (pos b) + displacement (Suc k)"
    by (simp add: displacement_Suc)
  have "moveBody (drift k b) =
      b\<lparr>pos := Vec (vx (pos b) + displacement k + (3 / 10 + real k / 10000)) (vy (pos b)),
        vel := Vec (3 / 10 + real k / 10000 + 1 / 10000) 0\<rparr>"
    using assms by (simp add: moveBody_def drift_def add_def del: of_nat_Suc)
  then show ?thesis
    unfolding v p by (simp add: drift_def)
qed

lemma drift_0: "vel b = Vec (3 / 10) 0 \<Longrightarrow> drift 0 b = b"
  by (simp add: drift_def displacement_0)

lemma in_set_map_upt: "b \<in> set (map f [0 ..< n]) \<Longrightarrow> \<exists>i<n. b = f i"
  by auto

lemma initial_aliens_props:
  assumes "b \<in> set (bodies (createAliens a))"
  shows "vel b = Vec (3 / 10) 0" and "acc b = Vec a 0" and "dims b = ALIEN_DIMS"
    and "50 \<le> vx (pos b)" and "vx (pos b) \<le> 365" and "50 \<le> vy (pos b)" and "vy (pos b) \<le> 140"
proof -
  from assms have "b \<in> set (map (\<lambda>i. createAlien (Some i)
                 (add ALIEN_INITIAL_POS (Vec
                    (real (i mod COLS) * (width ALIEN_DIMS + ALIEN_SPACING))
                    (real (i div COLS) * (height ALIEN_DIMS + ALIEN_SPACING)))) a) [0 ..< ROWS * COLS])"
    by (simp add: createAliens_def Let_def)
  then obtain i where i: "i < ROWS * COLS"
    and b: "b = createAlien (Some i)
                 (add ALIEN_INITIAL_POS (Vec
                    (real (i mod COLS) * (width ALIEN_DIMS + ALIEN_SPACING))
                    (real (i div COLS) * (height ALIEN_DIMS + ALIEN_SPACING)))) a"
    by (blast dest: in_set_map_upt)
  have "i mod COLS \<le> 7" by (simp add: COLS_def)
  then have "real (i mod COLS) \<le> real 7" by (simp only: of_nat_le_iff)
  then have m: "real (i mod COLS) \<le> 7" by simp
  have "i div COLS \<le> 2" using i by (simp add: ROWS_def COLS_def)
  then have "real (i div COLS) \<le> real 2" by (simp only: of_nat_le_iff)
  then have d: "real (i div COLS) \<le> 2" by simp
  show "vel b = Vec (3 / 10) 0" "acc b = Vec a 0" "dims b = ALIEN_DIMS"
    by (simp_all add: b createAlien_def createBody_def ALIEN_INITIAL_SPEED_def)
  have px: "vx (pos b) = 50 + real (i mod COLS) * 45" and py: "vy (pos b) = 50 + real (i div COLS) * 45"
    by (simp_all add: b createAlien_def createBody_def add_def ALIEN_INITIAL_POS_def
        ALIEN_DIMS_def ALIEN_SPACING_def)
  show "50 \<le> vx (pos b)" "vx (pos b) \<le> 365" "50 \<le> vy (pos b)" "vy (pos b) \<le> 140"
    using m d by (simp_all add: px py)
qed

lemma inBounds_drift:
  assumes "b \<in> set (bodies (createAliens a))" and "k \<le> 82"
  shows "inBounds (drift k b)"
  using initial_aliens_props [OF assms(1)] displacement_bound [OF assms(2)]
  by (simp add: inBounds_def drift_def ALIEN_DIMS_def CANVAS_SIZE_def)

lemma no_invasion:
  "k \<le> 82 \<Longrightarrow> filter (not inBounds) (bodies (driftedAliens k)) = []"
  by (simp add: driftedAliens_def filter_empty_conv not_def inBounds_drift)

lemma moveAliens_drifted:
  assumes "k \<le> 81"
  shows "moveAliens (driftedAliens k) = driftedAliens (Suc k)"
proof -
  let ?anchor = "createAlien None (Vec 50 0) ALIEN_INITIAL_ACC"
  from assms have "k \<le> 82" by simp
  note d = displacement_bound [OF this]
  have x: "vx (pos (drift k ?anchor)) = 50 + displacement k"
    by (simp add: drift_def createAlien_def createBody_def)
  have bs: "moveBody (drift k a) = drift (Suc k) a"
    if "a \<in> set (bodies (createAliens ALIEN_INITIAL_ACC))" for a
    using initial_aliens_props(2) [OF that] by (intro drift_step) (simp add: ALIEN_INITIAL_ACC_def)
  have an: "moveBody (drift k ?anchor) = drift (Suc k) ?anchor"
    by (rule drift_step) (simp add: createAlien_def createBody_def ALIEN_INITIAL_ACC_def)
  show ?thesis
    using d by (simp add: moveAliens_def driftedAliens_def Let_def x bs an X_BOUNDS_right_def
        X_BOUNDS_left_def COLS_def ALIEN_DIMS_def ALIEN_SPACING_def)
qed

lemma handleCollisions_quiet:
  assumes "checkCollision (bullets s) (shields s) = []"
    and "checkCollision (filter (isViewType BulletPlayer) (bullets s)) (bodies (aliens s)) = []"
    and "checkCollision (filter (isViewType BulletPlayer) (bullets s)) (ufo s) = []"
    and "filter (not (\<lambda>(a, b). sameId a b)) (checkCollision (bullets s) (bullets s)) = []"
    and "filter (\<lambda>b. bodiesCollided (ship s, b)) (bullets s) = []"
    and "score s \<le> hiScore s"
  shows "handleCollisions s = s"
  using assms
  by (simp add: handleCollisions_def Let_def cut_def except_def not_def elem_def)

lemma cruise_fields:
  "bullets (cruise k) = []" "ufo (cruise k) = []" "score (cruise k) = 0" "hiScore (cruise k) = 0"
  "\<not> gameOver (cruise k)" "shields (cruise k) = createShields" "exit (cruise k) = []"
  "aliens (cruise k) = driftedAliens k" "holes (cruise k) = []"
  by (simp_all add: cruise_def initialState_def)

lemma length_drifted: "length (bodies (driftedAliens k)) = 24"
  by (simp add: driftedAliens_def length_createAliens ROWS_def COLS_def)

lemma ship_cruise_inBounds: "k \<le> 81 \<Longrightarrow> inBounds (ship (cruise k))"
  by (simp add: cruise_def inBounds_def createShip_def createBody_def constant_defs)

lemma interim_cruise:
  assumes "k \<le> 81"
  shows "interim (cruise k) (real k) = cruise (Suc k)"
proof -
  have "moveBody (ship (cruise k)) = ship (cruise (Suc k))"
    by (simp add: cruise_def moveBody_def add_def createShip_def createBody_def Zero_def
        algebra_simps)
  moreover have "moveAliens (aliens (cruise k)) = aliens (cruise (Suc k))"
    using assms by (simp add: cruise_fields moveAliens_drifted)
  moreover have "filter (not inBounds) (bodies (aliens (cruise k))) = []"
    using assms by (simp add: cruise_fields no_invasion)
  ultimately show ?thesis
    using ship_cruise_inBounds [OF assms]
    by (simp add: interim_def cruise_fields except_def) (simp add: cruise_def initialState_def)
qed

lemma quiet_cruise: "handleCollisions (cruise k) = cruise k"
  by (rule handleCollisions_quiet) (simp_all add: cruise_fields)

lemma reduce_tick_cruise:
  assumes "k \<le> 81"
  shows "reduceState (cruise k) (Tick (real k)) = Inr (cruise (Suc k))"
  by (simp add: reduceState_def cruise_fields length_drifted tick_interim interim_cruise [OF assms]
      quiet_cruise)

lemma reduce_move: "reduceState (initialState 0 (1 / 2)) (Move 3) = Inr (cruise 0)"
proof -
  have "map (drift 0) (bodies (createAliens ALIEN_INITIAL_ACC)) = bodies (createAliens ALIEN_INITIAL_ACC)"
    by (simp add: map_idI drift_0 initial_aliens_props(1))
  moreover have "drift 0 (createAlien None (Vec 50 0) ALIEN_INITIAL_ACC) =
      createAlien None (Vec 50 0) ALIEN_INITIAL_ACC"
    by (rule drift_0) (simp add: createAlien_def createBody_def ALIEN_INITIAL_SPEED_def)
  ultimately have "driftedAliens 0 = createAliens ALIEN_INITIAL_ACC"
    by (simp add: driftedAliens_def) (simp add: createAliens_def Let_def ALIEN_INITIAL_POS_def)
  moreover have "length (bodies (aliens (initialState 0 (1 / 2)))) = 24"
    by (rule length_initial_aliens)
  ultimately show ?thesis
    by (simp add: reduceState_def cruise_def) (simp add: initialState_def createShip_def createBody_def constant_defs)
qed

lemma flight_fields:
  "bullets (flight k j) = [theBullet j]" "ufo (flight k j) = []" "score (flight k j) = 0"
  "hiScore (flight k j) = 0" "\<not> gameOver (flight k j)" "shields (flight k j) = createShields"
  "exit (flight k j) = []" "aliens (flight k j) = driftedAliens k" "holes (flight k j) = []"
  "ship (flight k j) = ship (cruise k)"
  by (simp_all add: flight_def cruise_fields)

lemma reduce_shoot: "reduceState (cruise 15) Shoot = Inr (flight 15 0)"
  by (simp add: reduceState_def cruise_fields length_drifted)
    (simp add: flight_def cruise_def theBullet_def initialState_def createShip_def createBody_def
      add_def rotate_180 constant_defs)

lemma bullet_misses_shields: "checkCollision [theBullet j] createShields = []"
  by (simp add: checkCollision_Cons createShields_def upt_rec theBullet_def createBody_def
      bodiesCollided_def add_def constant_defs)

lemma bullet_misses_aliens:
  assumes "j \<le> 66"
  shows "checkCollision [theBullet j] (bodies (driftedAliens k)) = []"
proof -
  have "real j \<le> 66" using assms by simp
  then have "\<not> bodiesCollided (theBullet j, drift k a)"
    if "a \<in> set (bodies (createAliens ALIEN_INITIAL_ACC))" for a
    using initial_aliens_props [OF that]
    by (simp add: bodiesCollided_def theBullet_def drift_def createBody_def ALIEN_DIMS_def)
  then show ?thesis
    by (simp add: checkCollision_Cons driftedAliens_def filter_empty_conv)
qed

lemma bullet_no_clash:
  "filter (not (\<lambda>(a, b). sameId a b)) (checkCollision [theBullet j] [theBullet j]) = []"
  by (simp add: checkCollision_Cons not_def sameId_def)

lemma bullet_misses_ship: "\<not> bodiesCollided (ship (cruise k), theBullet j)"
  by (simp add: cruise_def bodiesCollided_def theBullet_def createShip_def createBody_def
      constant_defs)

lemma bullet_is_players: "filter (isViewType BulletPlayer) [theBullet j] = [theBullet j]"
  by (simp add: isViewType_def theBullet_def createBody_def)

lemma quiet_flight:
  assumes "j \<le> 66"
  shows "handleCollisions (flight k j) = flight k j"
  by (rule handleCollisions_quiet)
    (simp_all add: flight_fields bullet_is_players bullet_misses_shields
      bullet_misses_aliens [OF assms] bullet_no_clash bullet_misses_ship)

lemma interim_flight:
  assumes "k \<le> 81" and "j \<le> 66"
  shows "interim (flight k j) (real k) = flight (Suc k) (Suc j)"
proof -
  have "real j \<le> 66" using assms(2) by simp
  then have b: "inBounds (theBullet j)"
    by (simp add: inBounds_def theBullet_def createBody_def constant_defs)
  have m: "moveBody (theBullet j) = theBullet (Suc j)"
    by (simp add: moveBody_def theBullet_def createBody_def add_def Zero_def algebra_simps)
  have "interim (flight k j) (real k) = (interim (cruise k) (real k))
      \<lparr>bullets := [theBullet (Suc j)], objCount := 25\<rparr>"
    by (simp add: interim_def flight_fields cruise_fields b m not_def except_def)
      (simp add: flight_def)
  then show ?thesis
    by (simp add: interim_cruise [OF assms(1)] flight_def)
qed

lemma reduce_tick_flight:
  assumes "k \<le> 81" and "j \<le> 65"
  shows "reduceState (flight k j) (Tick (real k)) = Inr (flight (Suc k) (Suc j))"
proof -
  from assms(2) have "j \<le> 66" and "Suc j \<le> 66" by simp_all
  then show ?thesis
    by (simp add: reduceState_def flight_fields length_drifted tick_interim
        interim_flight [OF assms(1)] quiet_flight)
qed

lemma scanEvents_append:
  "scanEvents s (es @ fs) =
     (case scanEvents s es of Inl err \<Rightarrow> Inl err | Inr s' \<Rightarrow> scanEvents s' fs)"
  by (induction es arbitrary: s) (simp_all split: sum.splits)

lemma ticksFrom_append: "ticksFrom k (n + m) = ticksFrom k n @ ticksFrom (k + n) m"
  by (induction n arbitrary: k) simp_all

lemma scan_cruise:
  "k + n \<le> 82 \<Longrightarrow> scanEvents (cruise k) (ticksFrom k n) = Inr (cruise (k + n))"
proof (induction n arbitrary: k)
  case 0
  then show ?case by simp
next
  case (Suc n)
  from Suc.prems have k: "k \<le> 81" and "Suc k + n \<le> 82" by simp_all
  from Suc.IH [OF this(2)] show ?case
    by (simp add: reduce_tick_cruise [OF k])
qed

lemma scan_flight:
  "k + n \<le> 82 \<Longrightarrow> j + n \<le> 66 \<Longrightarrow>
   scanEvents (flight k j) (ticksFrom k n) = Inr (flight (k + n) (j + n))"
proof (induction n arbitrary: k j)
  case 0
  then show ?case by simp
next
  case (Suc n)
  from Suc.prems have k: "k \<le> 81" and j: "j \<le> 65"
    and "Suc k + n \<le> 82" and "Suc j + n \<le> 66" by simp_all
  from Suc.IH [OF this(3,4)] show ?case
    by (simp add: reduce_tick_flight [OF k j])
qed

lemma scan_killEvents: "scanEvents (initialState 0 (1 / 2)) killEvents = Inr afterFirstKill"
proof -
  have 1: "scanEvents (cruise 0) (ticksFrom 0 15) = Inr (cruise 15)"
    using scan_cruise [of 0 15] by simp
  have 2: "scanEvents (flight 15 0) (ticksFrom 15 66) = Inr (flight 81 66)"
    using scan_flight [of 15 66 0] by simp
  have "interim (flight 81 66) (real 81) = flight (Suc 81) (Suc 66)"
    by (rule interim_flight) simp_all
  then have "tick (flight 81 66) 81 = afterFirstKill"
    by (simp add: tick_interim afterFirstKill_def)
  then have 3: "scanEvents (flight 81 66) (ticksFrom 81 (Suc 0)) = Inr afterFirstKill"
    by (simp add: reduceState_def flight_fields length_drifted)
  have split: "ticksFrom 15 67 = ticksFrom 15 66 @ ticksFrom 81 (Suc 0)"
    using ticksFrom_append [of 15 66 "Suc 0"] by simp
  have "scanEvents (initialState 0 (1 / 2)) killEvents =
      scanEvents (cruise 0) (ticksFrom 0 15 @ Shoot # ticksFrom 15 67)"
    by (simp add: killEvents_def reduce_move)
  also have "\<dots> = scanEvents (cruise 15) (Shoot # ticksFrom 15 67)"
    by (simp add: scanEvents_append 1)
  also have "\<dots> = scanEvents (flight 15 0) (ticksFrom 15 66 @ ticksFrom 81 (Suc 0))"
    by (simp add: reduce_shoot split)
  also have "\<dots> = scanEvents (flight 81 66) (ticksFrom 81 (Suc 0))"
    by (simp add: scanEvents_append 2)
  finally show ?thesis by (simp only: 3)
qed

lemma displacement_82: "displacement 82 = 249321 / 10000"
  by (simp add: displacement_def)

lemma first_hit: "map (\<lambda>p. ident (snd p)) (alienHits (flight 82 67)) = [''alien22'']"
  unfolding alienHits_def flight_fields bullet_is_players driftedAliens_def
  by (simp add: checkCollision_Cons createAliens_def createAlien_def createBody_def Let_def
      upt_rec drift_def displacement_82 theBullet_def bodiesCollided_def add_def constant_defs
      numberString.simps split del: if_split)

lemma score_afterFirstKill: "score afterFirstKill = 10"
proof -
  have "length (map (\<lambda>p. ident (snd p)) (alienHits (flight 82 67))) = 1"
    by (simp only: first_hit) simp
  then have "length (alienHits (flight 82 67)) = 1" by simp
  moreover have "ufoHits (flight 82 67) = []"
    by (simp add: ufoHits_def flight_fields)
  ultimately show ?thesis
    by (simp add: afterFirstKill_def score_handleCollisions flight_fields ALIEN_SCORING_def)
qed

subsubsection \<open>Score\<close>

lemma score_tick: "score s \<le> score (tick s t)"
  by (simp add: tick_interim score_handleCollisions interim_def ALIEN_SCORING_def UFO_POINTS_def)

lemma hiScore_tick: "hiScore (tick s t) = max (hiScore s) (score (tick s t))"
  by (simp add: tick_interim hiScore_handleCollisions) (simp add: interim_def)

lemma score_alienShoot:
  "alienShoot s = Inr s' \<Longrightarrow> score s' = score s \<and> hiScore s' = hiScore s"
  by (auto simp: alienShoot_def Let_def split: if_splits)

lemma ident_drift: "ident (drift k b) = ident b"
  by (simp add: drift_def)

lemma aliens_handleCollisions:
  "bodies (aliens (handleCollisions s)) =
     filter (not (elem sameId (map snd (alienHits s)))) (bodies (aliens s))"
  by (simp add: handleCollisions_def Let_def alienHits_def)

lemma elem_sameId: "elem sameId xs b = (ident b \<in> set (map ident xs))"
  by (auto simp: elem_list_ex sameId_def list_ex_iff)

lemma survivors: "length (bodies (aliens afterFirstKill)) = 23"
proof -
  have "map ident (map snd (alienHits (flight 82 67))) = [''alien22'']"
    using first_hit by (simp add: comp_def)
  then have e: "not (elem sameId (map snd (alienHits (flight 82 67)))) =
      (\<lambda>b. ident b \<noteq> ''alien22'')"
    by (simp add: fun_eq_iff not_def elem_sameId)
  show ?thesis
    unfolding afterFirstKill_def aliens_handleCollisions e flight_fields driftedAliens_def
    by (simp add: createAliens_def createAlien_def createBody_def Let_def upt_rec drift_def
        constant_defs numberString.simps split del: if_split)
qed

lemma score_renewState: "score (renewState s r) = (if r then 0 else score s)"
  by (simp add: renewState_def Let_def)

lemma hiScore_renewState: "hiScore (renewState s r) = hiScore s"
  by (simp add: renewState_def Let_def)

lemma score_invariant_step:
  assumes "reduceState s e = Inr s'" and "0 \<le> score s" and "score s \<le> hiScore s"
  shows "0 \<le> score s' \<and> score s' \<le> hiScore s'"
proof (cases "bodies (aliens s) = [] \<or> e = Restart \<or> gameOver s")
  case True
  with assms show ?thesis
    by (auto simp: reduceState_def score_renewState hiScore_renewState split: if_splits)
next
  case False
  show ?thesis
  proof (cases e)
    case (Tick t)
    with False assms(1) have s': "s' = tick s t"
      by (simp add: reduceState_def)
    have "score s \<le> score (tick s t)" by (rule score_tick)
    with assms(2) show ?thesis
      by (simp add: s' hiScore_tick)
  next
    case AlienShoot
    with False assms(1) have "alienShoot s = Inr s'"
      by (simp add: reduceState_def)
    from score_alienShoot [OF this] assms(2,3) show ?thesis by simp
  qed (use False assms in \<open>auto simp: reduceState_def split: if_splits\<close>)
qed

lemma level_advance_rigid_iff:
  assumes "bodies (aliens s) = []" and "reduceState s e = Inr s'"
  shows "rigid (aliens s') = (ALIEN_ACC_SCALE * accMagnitude (aliens s) = ALIEN_INITIAL_ACC)"
  using assms by (auto simp: reduceState_def renewState_def Let_def rigid_createAliens)

subsection \<open>Collision test\<close>

text \<open>
  Claim C9. For bodies with non-negative width and height, \<^verbatim>\<open>bodiesCollided\<close> holds exactly
  when the two rectangles (\<open>pos\<close> the top-left corner, extended by width and height) overlap
  on both axes as closed intervals, so rectangles whose edges touch collide.
\<close>

theorem bodiesCollided_closed_overlap:
  assumes "0 \<le> width (dims a)" and "0 \<le> height (dims a)"
    and "0 \<le> width (dims b)" and "0 \<le> height (dims b)"
  shows "bodiesCollided (a, b) = rectanglesOverlap a b"
  using assms
  by (auto simp: bodiesCollided_def rectanglesOverlap_def closedIntervalsMeet_def)

theorem bodiesCollided_closed_overlap_witness:
  "0 \<le> width (dims touchingBullet) \<and> 0 \<le> height (dims touchingBullet) \<and>
   0 \<le> width (dims (hd createShields)) \<and> 0 \<le> height (dims (hd createShields)) \<and>
   vy (pos touchingBullet) + height (dims touchingBullet) = vy (pos (hd createShields)) \<and>
   bodiesCollided (touchingBullet, hd createShields) \<and>
   rectanglesOverlap touchingBullet (hd createShields)"
proof -
  have shield0: "hd createShields =
      createBody Shield (Some 0) START_TIME SHIELD_DIMS (add SHIELD_INITIAL_POS (Vec 0 0)) Zero Zero"
    by (simp add: createShields_def upt_rec SHIELD_DISTANCE_APART_def)
  have d: "0 \<le> width (dims touchingBullet)" "0 \<le> height (dims touchingBullet)"
    "0 \<le> width (dims (hd createShields))" "0 \<le> height (dims (hd createShields))"
    by (simp_all add: shield0 touchingBullet_def createBody_def BULLET_DIMS_def SHIELD_DIMS_def)
  have ov: "rectanglesOverlap touchingBullet (hd createShields)"
    by (simp add: shield0 rectanglesOverlap_def closedIntervalsMeet_def touchingBullet_def
        createBody_def BULLET_DIMS_def SHIELD_DIMS_def SHIELD_INITIAL_POS_def add_def)
  have touch: "vy (pos touchingBullet) + height (dims touchingBullet) = vy (pos (hd createShields))"
    by (simp add: shield0 touchingBullet_def createBody_def BULLET_DIMS_def
        SHIELD_INITIAL_POS_def add_def)
  from bodiesCollided_closed_overlap [OF d] ov d touch show ?thesis by simp
qed

subsection \<open>Level advance\<close>

text \<open>
  Claim C5. Reducing any event against a state whose alien formation is empty returns a
  state with the same score and a new formation of \<open>ROWS * COLS\<close> aliens, whose stored
  acceleration magnitude is \<open>ALIEN_ACC_SCALE\<close> times the previous one. The 24 bodies are
  aliens \<open>alien0\<close> ... \<open>alien23\<close> of size 35 by 35 on the initial grid (8 columns and 3
  rows, 45 apart, from (50, 50)), created at time 0, moving at (0.3, 0) and accelerating
  by that scaled magnitude.
\<close>

theorem level_advance:
  assumes "length (bodies (aliens s)) = 0"
  shows "\<exists>s'. reduceState s e = Inr s' \<and>
           length (bodies (aliens s')) = ROWS * COLS \<and>
           score s' = score s \<and>
           accMagnitude (aliens s') = ALIEN_ACC_SCALE * accMagnitude (aliens s) \<and>
           map viewType (bodies (aliens s')) = replicate 24 Alien \<and>
           map ident (bodies (aliens s')) = map (\<lambda>i. ''alien'' @ numberString i) [0 ..< 24] \<and>
           map createTime (bodies (aliens s')) = replicate 24 0 \<and>
           map dims (bodies (aliens s')) = replicate 24 \<lparr>width = 35, height = 35\<rparr> \<and>
           map pos (bodies (aliens s')) =
             map (\<lambda>i. Vec (50 + 45 * real (i mod 8)) (50 + 45 * real (i div 8))) [0 ..< 24] \<and>
           map vel (bodies (aliens s')) = replicate 24 (Vec (3 / 10) 0) \<and>
           map acc (bodies (aliens s')) =
             replicate 24 (Vec (ALIEN_ACC_SCALE * accMagnitude (aliens s)) 0)"
proof -
  note a = aliens_level_advance [OF assms, of e]
  have "accMagnitude (createAliens x) = x" for x
    by (simp add: createAliens_def Let_def)
  with a show ?thesis
    by (simp add: length_createAliens map_viewType_createAliens map_ident_createAliens
        map_createTime_createAliens map_dims_createAliens map_pos_createAliens
        map_vel_createAliens map_acc_createAliens ALIEN_INITIAL_SPEED_def)
qed

theorem level_advance_witness:
  "length (bodies (aliens levelCleared)) = 0 \<and>
   reduceState levelCleared Shoot = Inr (renewState levelCleared False) \<and>
   length (bodies (aliens (renewState levelCleared False))) = 24 \<and>
   score (renewState levelCleared False) = 240 \<and>
   accMagnitude (aliens (renewState levelCleared False)) = 2 / 10000 \<and>
   map viewType (bodies (aliens (renewState levelCleared False))) = replicate 24 Alien \<and>
   map acc (bodies (aliens (renewState levelCleared False))) = replicate 24 (Vec (2 / 10000) 0) \<and>
   map vel (bodies (aliens (renewState levelCleared False))) = replicate 24 (Vec (3 / 10) 0) \<and>
   pos (bodies (aliens (renewState levelCleared False)) ! 0) = Vec 50 50 \<and>
   pos (bodies (aliens (renewState levelCleared False)) ! 23) = Vec 365 140 \<and>
   ident (bodies (aliens (renewState levelCleared False)) ! 23) = ''alien23''"
proof -
  have h: "length (bodies (aliens levelCleared)) = 0"
    by (simp add: levelCleared_def)
  have sc: "score levelCleared = 240" by (simp add: levelCleared_def)
  have am: "accMagnitude (aliens levelCleared) = 1 / 10000"
    by (simp add: levelCleared_def initialState_def createAliens_def Let_def ALIEN_INITIAL_ACC_def)
  have r: "reduceState levelCleared Shoot = Inr (renewState levelCleared False)"
    using h by (simp add: reduceState_def)
  from level_advance [OF h, of Shoot]
  have all: "length (bodies (aliens (renewState levelCleared False))) = 24"
    "score (renewState levelCleared False) = 240"
    "accMagnitude (aliens (renewState levelCleared False)) = 2 / 10000"
    "map viewType (bodies (aliens (renewState levelCleared False))) = replicate 24 Alien"
    "map acc (bodies (aliens (renewState levelCleared False))) = replicate 24 (Vec (2 / 10000) 0)"
    "map vel (bodies (aliens (renewState levelCleared False))) = replicate 24 (Vec (3 / 10) 0)"
    "map pos (bodies (aliens (renewState levelCleared False))) =
       map (\<lambda>i. Vec (50 + 45 * real (i mod 8)) (50 + 45 * real (i div 8))) [0 ..< 24]"
    "map ident (bodies (aliens (renewState levelCleared False))) =
       map (\<lambda>i. ''alien'' @ numberString i) [0 ..< 24]"
    by (simp_all add: r sc am ROWS_def COLS_def ALIEN_ACC_SCALE_def)
  have p0: "pos (bodies (aliens (renewState levelCleared False)) ! 0) = Vec 50 50"
    using arg_cong [OF all(7), of "\<lambda>xs. xs ! 0"] all(1) by simp
  have p23: "pos (bodies (aliens (renewState levelCleared False)) ! 23) = Vec 365 140"
    using arg_cong [OF all(7), of "\<lambda>xs. xs ! 23"] all(1) by simp
  have i23: "ident (bodies (aliens (renewState levelCleared False)) ! 23) = ''alien23''"
    using arg_cong [OF all(8), of "\<lambda>xs. xs ! 23"] all(1) by (simp add: numberString.simps)
  from h r all(1-6) p0 p23 i23 show ?thesis by simp
qed

subsection \<open>Single-shot rule\<close>

text \<open>
  Claim C6. With a non-empty formation and the game not over, a \<^verbatim>\<open>Shoot\<close> while a player
  bullet is live returns the state as it was: no new bullet, the same bullet collection
  and the same object counter.
\<close>

theorem single_shot:
  assumes "bodies (aliens s) \<noteq> []" and "\<not> gameOver s"
    and "\<exists>b \<in> set (bullets s). viewType b = BulletPlayer"
  shows "\<exists>s'. reduceState s Shoot = Inr s' \<and> bullets s' = bullets s \<and>
           objCount s' = objCount s \<and> s' = s"
proof -
  from assms(3) obtain b where "find (\<lambda>b. viewType b = BulletPlayer) (bullets s) = Some b"
    by (cases "find (\<lambda>b. viewType b = BulletPlayer) (bullets s)") (auto simp: find_None_iff)
  with assms(1,2) show ?thesis
    by (simp add: reduceState_def)
qed

theorem single_shot_witness:
  "bodies (aliens shotFired) \<noteq> [] \<and> \<not> gameOver shotFired \<and>
   map viewType (bullets shotFired) = [BulletPlayer] \<and>
   reduceState shotFired Shoot = Inr shotFired"
proof -
  have "length (bodies (aliens shotFired)) = 24"
    by (simp add: shotFired_def length_initial_aliens)
  then have a: "bodies (aliens shotFired) \<noteq> []"
    by auto
  have b: "\<not> gameOver shotFired"
    by (simp add: shotFired_def initialState_def)
  have v: "map viewType (bullets shotFired) = [BulletPlayer]"
    by (simp add: shotFired_def createBody_def)
  then have c: "\<exists>b \<in> set (bullets shotFired). viewType b = BulletPlayer"
    by (cases "bullets shotFired") auto
  from single_shot [OF a b c] a b v show ?thesis by simp
qed

subsection \<open>Shields\<close>

text \<open>
  Claim C10. Whenever the reducer returns a state, its shields are those of the state it
  was given: restart, level advance, ticks with collisions and every other event leave the
  shields as they are.
\<close>

theorem shields_frame:
  assumes "reduceState s e = Inr s'"
  shows "shields s' = shields s"
proof (cases "length (bodies (aliens s)) = 0 \<or> e = Restart \<or> gameOver s")
  case True
  with assms show ?thesis
    by (auto simp: reduceState_def shields_renewState split: if_splits)
next
  case False
  with assms show ?thesis
    by (cases e) (auto simp: reduceState_def shields_tick dest: shields_alienShoot split: if_splits)
qed

theorem shields_frame_witness:
  "reduceState (initialState 0 (1 / 2)) (Tick 1) = Inr (tick (initialState 0 (1 / 2)) 1) \<and>
   shields (tick (initialState 0 (1 / 2)) 1) = createShields"
proof -
  have "length (bodies (aliens (initialState 0 (1 / 2)))) = 24"
    by (rule length_initial_aliens)
  then have r: "reduceState (initialState 0 (1 / 2)) (Tick 1) = Inr (tick (initialState 0 (1 / 2)) 1)"
    by (simp add: reduceState_def initialState_def)
  have "shields (initialState 0 (1 / 2)) = createShields"
    by (simp add: initialState_def)
  with shields_frame [OF r] r show ?thesis by simp
qed

subsection \<open>Renewing the state\<close>

text \<open>
  Claim C2. \<^verbatim>\<open>renewState\<close> builds \<open>exit\<close> from the old bullets, holes and UFOs followed by the
  old \<^verbatim>\<open>AliensInfo\<close> object itself (\<^verbatim>\<open>s.aliens\<close>, not \<^verbatim>\<open>s.aliens.bodies\<close>). A restart from the
  initial state, whose formation holds 24 aliens, gives an \<open>exit\<close> whose only element is
  that object: no alien body is in it.
\<close>

theorem restart_exit_misses_aliens:
  "reduceState (initialState 0 (1 / 2)) Restart = Inr (renewState (initialState 0 (1 / 2)) True) \<and>
   length (bodies (aliens (initialState 0 (1 / 2)))) = 24 \<and>
   exit (renewState (initialState 0 (1 / 2)) True) =
     [ExitAliens (aliens (initialState 0 (1 / 2)))]"
proof -
  have l: "length (bodies (aliens (initialState 0 (1 / 2)))) = 24"
    by (rule length_initial_aliens)
  then have "reduceState (initialState 0 (1 / 2)) Restart =
      Inr (renewState (initialState 0 (1 / 2)) True)"
    by (simp add: reduceState_def)
  moreover have "exit (renewState (initialState 0 (1 / 2)) True) =
      [ExitAliens (aliens (initialState 0 (1 / 2)))]"
    by (simp add: exit_renewState) (simp add: initialState_def)
  ultimately show ?thesis using l by simp
qed

subsection \<open>Pseudo random numbers\<close>

text \<open>
  Claim C7. \<^verbatim>\<open>float()\<close> is \<^verbatim>\<open>int() / (m - 1)\<close>, a function of the current state that does not
  advance it, and \<^verbatim>\<open>next()\<close> is the generator whose state is \<^verbatim>\<open>int()\<close>. The divisor is
  \<open>m - 1\<close> while \<^verbatim>\<open>int()\<close> ranges over \<open>[0, m)\<close>: at the state \<open>1.946027762\<close> the value of
  \<^verbatim>\<open>int()\<close> lies between \<open>m - 1\<close> and \<open>m\<close>, and \<^verbatim>\<open>float()\<close> is above 1, outside \<open>[0, 1)\<close>.
\<close>

theorem float_rng_above_one:
  "2147483647 < int_rng \<lparr>state = 1946027762 / 1000000000\<rparr> \<and>
   int_rng \<lparr>state = 1946027762 / 1000000000\<rparr> < 2147483648 \<and>
   1 < float_rng \<lparr>state = 1946027762 / 1000000000\<rparr> \<and>
   float_rng \<lparr>state = 1946027762 / 1000000000\<rparr> < 1 + 1 / 1000000000"
  by (simp add: float_rng_def int_rng_def js_rem_def rng_a_def rng_c_def rng_m_def)

subsection \<open>Formation rigidity\<close>

text \<open>
  Claim C1. \<^verbatim>\<open>createAliens(alienAcc)\<close> gives every alien the acceleration \<open>(alienAcc, 0)\<close> but
  the anchor the acceleration \<open>(ALIEN.INITIAL.ACC, 0)\<close>. A level advance calls it with twice
  the previous magnitude: from the cleared first level the 24 new aliens accelerate by
  \<open>0.0002\<close> per tick and the anchor by \<open>0.0001\<close>, so the formation is not rigid.
\<close>

theorem level_advance_breaks_rigidity:
  "reduceState levelCleared (Tick 1) = Inr (renewState levelCleared False) \<and>
   map acc (bodies (aliens (renewState levelCleared False))) = replicate 24 (Vec (2 / 10000) 0) \<and>
   acc (current (movementPos (aliens (renewState levelCleared False)))) = Vec (1 / 10000) 0 \<and>
   \<not> rigid (aliens (renewState levelCleared False))"
proof -
  have "reduceState levelCleared (Tick 1) = Inr (renewState levelCleared False)"
    by (simp add: reduceState_def levelCleared_def)
  moreover have "aliens (renewState levelCleared False) = createAliens (2 / 10000)"
    by (simp add: renewState_def levelCleared_def initialState_def createAliens_def Let_def
        ALIEN_ACC_SCALE_def ALIEN_INITIAL_ACC_def)
  ultimately show ?thesis
    by (simp add: map_acc_createAliens anchor_createAliens rigid_createAliens ALIEN_INITIAL_ACC_def)
qed

subsection \<open>A player bullet hits a UFO\<close>

text \<open>
  Claim C3. In \<open>ufoUnderFire\<close> a tick moves the player bullet onto the UFO. The UFO leaves
  the \<open>ufo\<close> collection, the score rises by \<open>UFO.POINTS\<close>, bullet and UFO are appended to
  \<open>exit\<close>, but the bullet stays in \<open>bullets\<close>: the new \<open>bullets\<close> cuts the bullets expired by
  shields, by aliens and by other bullets, and not \<^verbatim>\<open>expiredBulletsFromUfo\<close>.
\<close>
theorem ufo_hit_keeps_bullet:
  "reduceState ufoUnderFire (Tick 1) = Inr (tick ufoUnderFire 1) \<and>
   ufo (tick ufoUnderFire 1) = [] \<and>
   score (tick ufoUnderFire 1) = 50 \<and>
   exit (tick ufoUnderFire 1) = [ExitBody firedBullet, ExitBody hitUfo] \<and>
   bullets (tick ufoUnderFire 1) = [firedBullet]"
proof -
  have "length (bodies (aliens ufoUnderFire)) = 24"
    by (simp add: ufoUnderFire_def length_initial_aliens)
  moreover have "\<not> gameOver ufoUnderFire"
    by (simp add: ufoUnderFire_def initialState_def)
  ultimately have "reduceState ufoUnderFire (Tick 1) = Inr (tick ufoUnderFire 1)"
    by (simp add: reduceState_def)
  moreover have "ufo (handleCollisions (interim ufoUnderFire 1)) = []"
    by (simp add: ufo_handleCollisions ufoHits_interim ufo_interim)
      (simp add: not_def elem_list_ex sameId_def)
  moreover have "score (handleCollisions (interim ufoUnderFire 1)) = 50"
    by (simp add: score_handleCollisions ufoHits_interim alienHits_interim score_interim
        UFO_POINTS_def)
  moreover have "exit (handleCollisions (interim ufoUnderFire 1)) =
      [ExitBody firedBullet, ExitBody hitUfo]"
    by (simp add: exit_handleCollisions ufoHits_interim alienHits_interim
        expiredFromShields_interim bulletClashes_interim exit_interim)
  moreover have "bullets (handleCollisions (interim ufoUnderFire 1)) = [firedBullet]"
    by (simp add: bullets_handleCollisions alienHits_interim expiredFromShields_interim
        bulletClashes_interim bullets_interim cut_def except_def not_def elem_list_ex)
  ultimately show ?thesis by (simp add: tick_interim)
qed

subsection \<open>Alien shoot selection\<close>

text \<open>
  Claim C8. From the initial state with the seed \<open>2.37162342251e-9\<close> the first \<^verbatim>\<open>AlienShoot\<close>
  selects the alien at index 0 and advances the generator; at the second one \<^verbatim>\<open>float()\<close> is
  above 1, the index is 24, the length of the formation, and reading \<^verbatim>\<open>attacker.pos\<close> of
  the \<^verbatim>\<open>undefined\<close> attacker throws.
\<close>
theorem second_alien_shot_throws:
  "scanEvents (initialState 0 crashSeed) [AlienShoot, AlienShoot] = Inl TypeError"
proof -
  let ?s = "initialState 0 crashSeed"
  have len: "length (bodies (aliens ?s)) = 24" by (rule length_initial_aliens)
  have r: "rng ?s = \<lparr>state = crashSeed\<rparr>" and g: "\<not> gameOver ?s"
    by (simp_all add: initialState_def)
  have "0 \<le> real (length (bodies (aliens ?s))) * float_rng (rng ?s)"
    and "real (length (bodies (aliens ?s))) * float_rng (rng ?s) < real (length (bodies (aliens ?s)))"
    by (simp_all add: len r float_crashSeed)
  then obtain s1 where s1: "alienShoot ?s = Inr s1" "aliens s1 = aliens ?s"
      "rng s1 = next_rng (rng ?s)" "gameOver s1 = gameOver ?s"
    using alienShoot_in_range by blast
  have "real (length (bodies (aliens s1))) \<le> real (length (bodies (aliens s1))) * float_rng (rng s1)"
    using float_after_crashSeed by (simp add: s1 len r)
  then have "alienShoot s1 = Inl TypeError" by (rule alienShoot_out_of_range)
  with s1 len g show ?thesis by (simp add: reduceState_def)
qed

subsection \<open>Score and high score\<close>

text \<open>
  Claim C4, as amended. Let \<open>0 \<le> score \<le> hiScore\<close> hold in \<open>s\<close>, as it does in every state
  reached from the initial state when the stored high score is not negative, and let the
  reducer return \<open>s'\<close>. Then the score does not decrease, except that a \<^verbatim>\<open>Restart\<close> against a
  non-empty formation sets it to 0; in every case the new high score is the maximum of
  the old high score and the new score, and \<open>0 \<le> score \<le> hiScore\<close> holds again.
\<close>

theorem score_monotone_except_restart:
  assumes "reduceState s e = Inr s'" and "0 \<le> score s" and "score s \<le> hiScore s"
  shows "(if e = Restart \<and> bodies (aliens s) \<noteq> [] then score s' = 0 else score s \<le> score s') \<and>
         hiScore s' = max (hiScore s) (score s') \<and>
         0 \<le> score s' \<and> score s' \<le> hiScore s'"
proof (cases "bodies (aliens s) = []")
  case True
  with assms show ?thesis
    by (auto simp: reduceState_def renewState_def Let_def)
next
  case ne: False
  show ?thesis
  proof (cases "e = Restart \<or> gameOver s")
    case True
    with assms ne show ?thesis
      by (auto simp: reduceState_def renewState_def Let_def split: if_splits)
  next
    case False
    from False assms ne show ?thesis
    proof (cases e)
      case (Tick t)
      with False assms ne have s': "s' = tick s t"
        by (simp add: reduceState_def)
      have up: "score s \<le> score (tick s t)" by (rule score_tick)
      with assms(2) have "0 \<le> score (tick s t)" by linarith
      with up show ?thesis
        by (simp add: Tick s' hiScore_tick)
    next
      case AlienShoot
      with False assms ne have "alienShoot s = Inr s'"
        by (simp add: reduceState_def)
      from score_alienShoot [OF this] assms(2,3) show ?thesis
        by (simp add: AlienShoot)
    qed (auto simp: reduceState_def split: if_splits)
  qed
qed


theorem score_monotone_except_restart_witness:
  "reduceState (flight 81 66) (Tick 81) = Inr afterFirstKill \<and>
   0 \<le> score (flight 81 66) \<and> score (flight 81 66) \<le> hiScore (flight 81 66) \<and>
   score (flight 81 66) \<le> score afterFirstKill \<and>
   hiScore afterFirstKill = max (hiScore (flight 81 66)) (score afterFirstKill) \<and>
   score afterFirstKill = 10 \<and> hiScore afterFirstKill = 10"
proof -
  have "interim (flight 81 66) (real 81) = flight (Suc 81) (Suc 66)"
    by (rule interim_flight) simp_all
  then have "tick (flight 81 66) 81 = afterFirstKill"
    by (simp add: tick_interim afterFirstKill_def)
  then have r: "reduceState (flight 81 66) (Tick 81) = Inr afterFirstKill"
    by (simp add: reduceState_def flight_fields length_drifted)
  have h1: "0 \<le> score (flight 81 66)" and h2: "score (flight 81 66) \<le> hiScore (flight 81 66)"
    by (simp_all add: flight_fields)
  from score_monotone_except_restart [OF r h1 h2] r show ?thesis
    by (simp add: score_afterFirstKill flight_fields)
qed

text \<open>The invariant \<open>0 \<le> score \<le> hiScore\<close> holds along every run of the game.\<close>

lemma scoreInv_scanEvents:
  assumes "scanEvents s es = Inr s'" and "0 \<le> score s" and "score s \<le> hiScore s"
  shows "0 \<le> score s' \<and> score s' \<le> hiScore s'"
  using assms
proof (induction es arbitrary: s)
  case Nil
  then show ?case by simp
next
  case (Cons e es)
  from Cons.prems(1) obtain s1 where 1: "reduceState s e = Inr s1" and 2: "scanEvents s1 es = Inr s'"
    by (auto split: sum.splits)
  from score_invariant_step [OF 1 Cons.prems(2,3)]
  have "0 \<le> score s1" and "score s1 \<le> hiScore s1" by simp_all
  with Cons.IH [OF 2] show ?case by simp
qed


lemma score_invariant_reachable:
  assumes "0 \<le> h" and "scanEvents (initialState h seed) es = Inr s"
  shows "0 \<le> score s \<and> score s \<le> hiScore s"
  using assms(2) by (rule scoreInv_scanEvents) (simp_all add: initialState_def assms(1))

text \<open>The claim as stated fails: \<open>killEvents\<close> lead from the initial state to a state with
  score 10, and a \<^verbatim>\<open>Restart\<close> there gives a state with score 0.\<close>

theorem restart_lowers_score:
  "scanEvents (initialState 0 (1 / 2)) killEvents = Inr afterFirstKill \<and>
   reduceState afterFirstKill Restart = Inr (renewState afterFirstKill True) \<and>
   score (renewState afterFirstKill True) < score afterFirstKill"
proof -
  have "reduceState afterFirstKill Restart = Inr (renewState afterFirstKill True)"
    by (simp add: reduceState_def survivors)
  moreover have "score (renewState afterFirstKill True) = 0"
    by (simp add: renewState_def Let_def)
  ultimately show ?thesis
    by (simp add: scan_killEvents score_afterFirstKill)
qed

end
